theory Spec2Isabelle
  imports Main "HOL-Library.Char_ord" "HOL-Library.List_Lexorder"
begin

section \<open>Peer connection lifecycle of \<^verbatim>\<open>src/ui/logic/backend.js\<close> (second document: the connection module)\<close>

text \<open>
  The module is single-threaded and event driven.  Every exported function and every
  registered callback runs to completion on one shared heap; what happens later is decided
  by timers, promise continuations and transport events.  The model is a record \<open>world\<close>
  holding that heap, and one HOL function per source function, taking the world and returning
  the updated one.  A world holds one connection and its swarm: every function of the module
  works on the one connection it is given, and the ping registry is the only state outside it.

  \<^item> \<open>Date.now()\<close> reads the field \<open>clock\<close>.  One handler runs at one clock value; the
    environment moves the clock between handlers.
  \<^item> \<open>setTimeout\<close> and \<open>clearTimeout\<close> work on the list \<open>timers\<close> of pending timers
    (handle, due time, callback).  Handles are positive numbers, as in a browser.
  \<^item> The transport objects (\<open>SimplePeer\<close> instances) live in the list \<open>peers\<close>; a
    reference is an index.  \<open>connection.pc\<close> and every callback closure hold references, so
    a superseded instance stays in the heap and its callbacks can still be fired.
  \<^item> \<open>swarm.hub.broadcast\<close> appends to \<open>outbox\<close>, \<open>swarm.emit\<close> appends to \<open>emitted\<close>.
  \<^item> \<open>log\<close>, \<open>console.warn\<close> and \<open>console.error\<close> have no effect on the heap and are
    left out.
  \<^item> \<open>null\<close> and \<open>undefined\<close> are both \<open>None\<close>; the code only tests them for truthiness.
    Where the code tests a number or a string for truthiness, the model does so too
    (\<open>0\<close> and the empty string are falsy).
\<close>

subsection \<open>Constants\<close>

definition MAX_CONNECT_TIME :: int where "MAX_CONNECT_TIME = 6000"
definition MAX_CONNECT_TIME_AFTER_ICE_DISCONNECT :: int where
  "MAX_CONNECT_TIME_AFTER_ICE_DISCONNECT = 2000"
definition MIN_MAX_CONNECT_TIME_AFTER_SIGNAL :: int where
  "MIN_MAX_CONNECT_TIME_AFTER_SIGNAL = 2000"
definition MAX_FAIL_TIME :: int where "MAX_FAIL_TIME = 20000"
definition MAX_PING_TIME :: int where "MAX_PING_TIME = 5000"

subsection \<open>Data\<close>

text \<open>The payload of a \<open>signal\<close> message: the fields of \<open>data\<close> that the module reads.
  \<open>meta\<close> is what the remote side attached in its \<open>signal\<close> callback, the object
  \<open>{remoteStreamIds}\<close>.\<close>

record sigdata =
  youStart :: bool
  first :: bool
  dfrom :: "string option"
  meta :: "(string \<times> string) list option"
  dtype :: string

datatype message =
  Signal string "(string \<times> int) option" sigdata
  | Ping string nat
  | Pong string nat

datatype emission = FailedConnection

text \<open>A transport instance: the fields that the module itself writes or reads on the
  \<open>SimplePeer\<close> object.  \<open>signalled\<close> collects the payloads handed to \<open>peer.signal\<close>.\<close>

record peer =
  initiator :: bool
  p_peerId :: string
  p_connId :: string
  connectStart :: int
  didSignal :: bool
  garbage :: bool
  destroyed :: bool
  pfrom :: "string option"
  remoteStreamIds :: "(string \<times> string) list option"
  signalled :: "sigdata list"

record connection =
  peerId :: string
  connId :: string
  lastFailure :: "int option"
  timeout :: "nat option"
  timeoutEnd :: "int option"
  timeoutMessage :: string
  pc :: "nat option"

record swarm =
  myPeerId :: string
  myConnId :: string
  sharedState :: string
  sharedStateTime :: int

datatype timerAction = ConnTimeout | PingTimeout nat

datatype resolution = Pending | Resolved "int option"

record promise =
  start :: int
  settled :: resolution

record world =
  clock :: int
  swarm :: swarm
  conn :: connection
  peers :: "peer list"
  timers :: "(nat \<times> int \<times> timerAction) list"
  nextTimer :: nat
  pingCount :: nat
  pings :: "nat list"
  promises :: "(nat \<times> promise) list"
  microtasks :: "int option list"
  outbox :: "(string \<times> message) list"
  emitted :: "emission list"

subsection \<open>JavaScript truthiness\<close>

fun truthy_num :: "int option \<Rightarrow> bool" where
  "truthy_num None = False"
| "truthy_num (Some n) = (n \<noteq> 0)"

fun truthy_str :: "string option \<Rightarrow> bool" where
  "truthy_str None = False"
| "truthy_str (Some s) = (s \<noteq> [])"

fun truthy_handle :: "nat option \<Rightarrow> bool" where
  "truthy_handle None = False"
| "truthy_handle (Some h) = (h \<noteq> 0)"

text \<open>\<open>x || d\<close> on an optional number.\<close>

fun num_or :: "int option \<Rightarrow> int \<Rightarrow> int" where
  "num_or None d = d"
| "num_or (Some n) d = (if n \<noteq> 0 then n else d)"

subsection \<open>The tie-break\<close>

text \<open>\<open>myPeerId > peerId || (myPeerId === peerId && myConnId > connId)\<close>, the expression
  of \<open>connectPeer\<close> (line 257) and of \<open>handleSignal\<close> (lines 297/298).  The peer ids are
  strings (the module slices them for its log lines), and \<open>>\<close> on strings is the
  lexicographic order on code units, with a proper prefix below its extensions: the order of
  \<open>List_Lexorder\<close> over \<open>Char_ord\<close>.  The expression is written once for any two totally
  ordered types of ids and used on strings.\<close>

definition iAmActive :: "'p::linorder \<Rightarrow> 'c::linorder \<Rightarrow> 'p \<Rightarrow> 'c \<Rightarrow> bool" where
  "iAmActive myPeerId' myConnId' peerId' connId' =
     (myPeerId' > peerId' \<or> (myPeerId' = peerId' \<and> myConnId' > connId'))"

definition active :: "world \<Rightarrow> bool" where
  "active w = iAmActive (myPeerId (swarm w)) (myConnId (swarm w))
                        (peerId (conn w)) (connId (conn w))"

subsection \<open>The environment: relay, event emitter, timers, heap of transport instances\<close>

definition broadcast :: "world \<Rightarrow> string \<Rightarrow> message \<Rightarrow> world" where
  "broadcast w target m = w\<lparr>outbox := outbox w @ [(target, m)]\<rparr>"

definition emit :: "world \<Rightarrow> emission \<Rightarrow> world" where
  "emit w e = w\<lparr>emitted := emitted w @ [e]\<rparr>"

text \<open>\<open>setTimeout(callback, delay)\<close>: a fresh handle; the callback is due \<open>delay\<close>
  milliseconds from now.\<close>

definition setTimeout :: "world \<Rightarrow> timerAction \<Rightarrow> int \<Rightarrow> world \<times> nat" where
  "setTimeout w act delay =
     (w\<lparr>timers := (nextTimer w, clock w + delay, act) # timers w,
        nextTimer := Suc (nextTimer w)\<rparr>,
      nextTimer w)"

text \<open>\<open>clearTimeout(handle)\<close>: the timer, if still pending, will not fire; clearing
  \<open>undefined\<close>, \<open>null\<close> or a handle that is no longer pending does nothing.\<close>

fun clearTimeout :: "world \<Rightarrow> nat option \<Rightarrow> world" where
  "clearTimeout w None = w"
| "clearTimeout w (Some h) = w\<lparr>timers := filter (\<lambda>t. fst t \<noteq> h) (timers w)\<rparr>"

definition updPeer :: "world \<Rightarrow> nat \<Rightarrow> (peer \<Rightarrow> peer) \<Rightarrow> world" where
  "updPeer w r f = w\<lparr>peers := (peers w)[r := f (peers w ! r)]\<rparr>"

text \<open>\<open>peer.destroy()\<close> of the transport library, as far as this module observes it:
  the instance reports \<open>destroyed\<close> from then on.\<close>

definition destroy :: "world \<Rightarrow> nat \<Rightarrow> world" where
  "destroy w r = updPeer w r (\<lambda>p. p\<lparr>destroyed := True\<rparr>)"

subsection \<open>newConnection\<close>

definition newConnection :: "string \<Rightarrow> string \<Rightarrow> connection" where
  "newConnection peerId' connId' =
     \<lparr>peerId = peerId', connId = connId', lastFailure = None, timeout = None,
      timeoutEnd = None, timeoutMessage = [], pc = None\<rparr>"

definition initWorld :: "int \<Rightarrow> swarm \<Rightarrow> connection \<Rightarrow> world" where
  "initWorld t sw c =
     \<lparr>clock = t, swarm = sw, conn = c, peers = [], timers = [], nextTimer = 1,
      pingCount = 0, pings = [], promises = [], microtasks = [], outbox = [],
      emitted = []\<rparr>"

subsection \<open>Liveness probes: ping, handlePing, handlePong, Resolvable\<close>

text \<open>\<open>ping\<close> (lines 545 to 560).  The promise made by \<open>Resolvable()\<close> is stored under the
  ping id, which is unique to it; \<open>pings\<close> is the key set of the \<open>Map\<close>.\<close>

definition ping :: "world \<Rightarrow> int \<Rightarrow> world \<times> nat" where
  "ping w tmo =
     (let id' = pingCount w;
          w1 = w\<lparr>pingCount := Suc id'\<rparr>;
          w2 = w1\<lparr>promises := (id', \<lparr>start = clock w1, settled = Pending\<rparr>) # promises w1\<rparr>;
          w3 = fst (setTimeout w2 (PingTimeout id') tmo);
          w4 = w3\<lparr>pings := id' # removeAll id' (pings w3)\<rparr>
      in (broadcast w4 (peerId (conn w4)) (Ping (connId (conn w4)) id'), id'))"

definition handlePing :: "world \<Rightarrow> string \<Rightarrow> string \<Rightarrow> nat \<Rightarrow> world" where
  "handlePing w peerId' connId' id' = broadcast w peerId' (Pong connId' id')"

text \<open>\<open>promise.resolve(v)\<close>: the first call settles the promise and queues the
  continuation that \<open>deathPing\<close> attached with \<open>then\<close>; later calls do nothing.\<close>

definition resolve :: "world \<Rightarrow> nat \<Rightarrow> int option \<Rightarrow> world" where
  "resolve w id' v =
     (case map_of (promises w) id' of
        None \<Rightarrow> w
      | Some p \<Rightarrow>
          (case settled p of
             Resolved u \<Rightarrow> w
           | Pending \<Rightarrow>
               w\<lparr>promises := map (\<lambda>q. if fst q = id' then (id', p\<lparr>settled := Resolved v\<rparr>) else q)
                                 (promises w),
                 microtasks := microtasks w @ [v]\<rparr>))"

text \<open>\<open>handlePong\<close> (lines 570 to 576).\<close>

definition handlePong :: "world \<Rightarrow> nat \<Rightarrow> world" where
  "handlePong w id' =
     (let w1 = (if id' \<in> set (pings w)
                then (case map_of (promises w) id' of
                        Some p \<Rightarrow> resolve w id' (Some (clock w - start p))
                      | None \<Rightarrow> w)
                else w)
      in w1\<lparr>pings := removeAll id' (pings w1)\<rparr>)"

text \<open>The callback that \<open>ping\<close> hands to \<open>setTimeout\<close> (lines 549 to 552).\<close>

definition pingTimedOut :: "world \<Rightarrow> nat \<Rightarrow> world" where
  "pingTimedOut w id' =
     (let w1 = resolve w id' None
      in w1\<lparr>pings := removeAll id' (pings w1)\<rparr>)"

subsection \<open>Deadlines: timeoutPeer, addToTimeout, stopTimeout, handlePeerSuccess\<close>

text \<open>\<open>timeoutPeer\<close> (lines 437 to 450).  An absent \<open>message\<close> is the empty string.\<close>

definition timeoutPeer :: "world \<Rightarrow> int \<Rightarrow> string \<Rightarrow> world" where
  "timeoutPeer w delay msg =
     (let now = clock w;
          w1 = w\<lparr>conn := (conn w)\<lparr>lastFailure := Some (num_or (lastFailure (conn w)) now)\<rparr>\<rparr>;
          w2 = clearTimeout w1 (timeout (conn w1));
          delay' = max 0 (max (num_or (timeoutEnd (conn w2)) 0 - now) delay);
          w3 = w2\<lparr>conn := (conn w2)\<lparr>timeoutEnd := Some (now + delay')\<rparr>\<rparr>;
          w4 = (if msg \<noteq> [] then w3\<lparr>conn := (conn w3)\<lparr>timeoutMessage := msg\<rparr>\<rparr> else w3);
          (w5, h) = setTimeout w4 ConnTimeout delay'
      in w5\<lparr>conn := (conn w5)\<lparr>timeout := Some h\<rparr>\<rparr>)"

definition addToTimeout :: "world \<Rightarrow> int \<Rightarrow> world" where
  "addToTimeout w delay =
     (if truthy_handle (timeout (conn w)) then timeoutPeer w delay [] else w)"

definition stopTimeout :: "world \<Rightarrow> world" where
  "stopTimeout w =
     (let w1 = clearTimeout w (timeout (conn w))
      in w1\<lparr>conn := (conn w1)\<lparr>timeout := None, timeoutMessage := [], timeoutEnd := Some 0\<rparr>\<rparr>)"

definition handlePeerSuccess :: "world \<Rightarrow> world" where
  "handlePeerSuccess w = stopTimeout (w\<lparr>conn := (conn w)\<lparr>lastFailure := None\<rparr>\<rparr>)"

subsection \<open>createPeer, deathPing, connectPeer, handlePeerFail\<close>

text \<open>\<open>createPeer\<close> (lines 334 to 435), without the local media streams and without the
  \<open>signal\<close>, \<open>data\<close> and \<open>track\<close> callbacks, which touch neither the connection
  record nor its deadline.  The four other callbacks are the functions \<open>onConnect\<close>,
  \<open>onError\<close>, \<open>onIceStateChange\<close> and \<open>onClose\<close> below; each takes the reference of the
  instance it was registered on.\<close>

definition createPeer :: "world \<Rightarrow> bool \<Rightarrow> world \<times> nat" where
  "createPeer w ini =
     (let w1 = (case pc (conn w) of
                  Some old \<Rightarrow> destroy (updPeer w old (\<lambda>p. p\<lparr>garbage := True\<rparr>)) old
                | None \<Rightarrow> w);
          r = length (peers w1);
          p = \<lparr>initiator = ini, p_peerId = peerId (conn w1), p_connId = connId (conn w1),
               connectStart = clock w1, didSignal = False, garbage = False,
               destroyed = False, pfrom = None, remoteStreamIds = None, signalled = []\<rparr>
      in (w1\<lparr>peers := peers w1 @ [p], conn := (conn w1)\<lparr>pc := Some r\<rparr>\<rparr>, r))"

text \<open>\<open>deathPing\<close> (lines 530 to 539) sends the probe; its \<open>then\<close> continuation is
  \<open>deathPingThen\<close> further down, run from the microtask queue once the promise is settled.\<close>

definition deathPing :: "world \<Rightarrow> world" where
  "deathPing w = fst (ping w MAX_PING_TIME)"

definition youStartData :: sigdata where
  "youStartData = \<lparr>youStart = True, first = False, dfrom = None, meta = None,
                   dtype = ''you-start''\<rparr>"

text \<open>\<open>connectPeer\<close> (lines 245 to 276).\<close>

definition connectPeer :: "world \<Rightarrow> world" where
  "connectPeer w =
     (let w1 = deathPing w;
          w2 = timeoutPeer w1 MAX_CONNECT_TIME []
      in if active w2 then fst (createPeer w2 True)
         else
           (let w3 = broadcast w2 (peerId (conn w2))
                       (Signal (connId (conn w2))
                          (Some (sharedState (swarm w2), sharedStateTime (swarm w2)))
                          youStartData)
            in case pc (conn w3) of
                 Some old \<Rightarrow> destroy (updPeer w3 old (\<lambda>p. p\<lparr>garbage := True\<rparr>)) old
               | None \<Rightarrow> w3))"

text \<open>\<open>handlePeerFail\<close> (lines 468 to 483).  \<open>forcedFail\<close> is \<open>True\<close> exactly when the
  caller passed \<open>true\<close>.\<close>

definition handlePeerFail :: "world \<Rightarrow> bool \<Rightarrow> world" where
  "handlePeerFail w forcedFail =
     (let w1 = stopTimeout w;
          now = clock w1;
          lf = num_or (lastFailure (conn w1)) now;
          w2 = w1\<lparr>conn := (conn w1)\<lparr>lastFailure := Some lf\<rparr>\<rparr>;
          failTime = now - lf
      in if forcedFail \<or> failTime > MAX_FAIL_TIME then emit w2 FailedConnection
         else connectPeer w2)"

text \<open>The continuation of \<open>deathPing\<close>: \<open>ms => { if (ms) log(..) else { ..;
  handlePeerFail(connection, true) } }\<close>.\<close>

definition deathPingThen :: "world \<Rightarrow> int option \<Rightarrow> world" where
  "deathPingThen w ms = (if truthy_num ms then w else handlePeerFail w True)"

definition runMicrotasks :: "world \<Rightarrow> world" where
  "runMicrotasks w = foldl deathPingThen (w\<lparr>microtasks := []\<rparr>) (microtasks w)"

subsection \<open>handleSignal\<close>

text \<open>\<open>addPeerMetaData\<close> (lines 485 to 494) copies the keys of \<open>meta\<close> onto the instance;
  the one key a remote side sends is \<open>remoteStreamIds\<close> (line 373).\<close>

definition addPeerMetaData :: "world \<Rightarrow> nat \<Rightarrow> (string \<times> string) list option \<Rightarrow> world" where
  "addPeerMetaData w r m =
     (case m of None \<Rightarrow> w | Some ids \<Rightarrow> updPeer w r (\<lambda>p. p\<lparr>remoteStreamIds := Some ids\<rparr>))"

text \<open>\<open>handleSignal\<close> (lines 278 to 332).\<close>

definition handleSignal :: "world \<Rightarrow> sigdata \<Rightarrow> world" where
  "handleSignal w data =
     (if youStart data then
        (if pc (conn w) = None then fst (createPeer w True) else w)
      else
        (let iAm = active w;
             (w1, peer') =
               (if first data \<and> \<not> iAm
                then (let (wc, r) = createPeer w False
                      in (updPeer wc r (\<lambda>p. p\<lparr>pfrom := dfrom data\<rparr>), Some r))
                else (w, pc (conn w)))
         in case peer' of
              None \<Rightarrow> connectPeer w1
            | Some r \<Rightarrow>
                if destroyed (peers w1 ! r) then connectPeer w1
                else
                  (let w2 = (if \<not> truthy_str (pfrom (peers w1 ! r))
                             then updPeer w1 r (\<lambda>p. p\<lparr>pfrom := dfrom data\<rparr>)
                             else w1)
                   in if pfrom (peers w2 ! r) \<noteq> dfrom data then w2
                      else
                        (let w3 = addPeerMetaData w2 r (meta data);
                             w4 = updPeer w3 r (\<lambda>p. p\<lparr>signalled := signalled p @ [data]\<rparr>)
                         in if \<not> (first data \<and> \<not> iAm)
                            then addToTimeout w4 MIN_MAX_CONNECT_TIME_AFTER_SIGNAL
                            else w4))))"

subsection \<open>The callbacks registered by createPeer, and the events of the environment\<close>

text \<open>\<open>peer.on('connect', ..)\<close> (lines 388 to 391).\<close>

definition onConnect :: "world \<Rightarrow> nat \<Rightarrow> world" where
  "onConnect w r = handlePeerSuccess w"

text \<open>\<open>peer.on('error', ..)\<close> (lines 412 to 415): returns at once on a garbage instance and
  only logs otherwise.\<close>

definition onError :: "world \<Rightarrow> nat \<Rightarrow> world" where
  "onError w r = (if garbage (peers w ! r) then w else w)"

text \<open>\<open>peer.on('iceStateChange', ..)\<close> (lines 416 to 429).\<close>

definition onIceStateChange :: "world \<Rightarrow> nat \<Rightarrow> string \<Rightarrow> world" where
  "onIceStateChange w r st =
     (let w1 = (if st = ''disconnected''
                then timeoutPeer (deathPing w) MAX_CONNECT_TIME_AFTER_ICE_DISCONNECT
                       ''peer timed out after ice disconnect''
                else w)
      in if st = ''connected'' \<or> st = ''completed'' then handlePeerSuccess w1 else w1)"

text \<open>\<open>peer.on('close', ..)\<close> (lines 430 to 433).\<close>

definition onClose :: "world \<Rightarrow> nat \<Rightarrow> world" where
  "onClose w r = (if garbage (peers w ! r) then w else handlePeerFail w False)"

text \<open>A pending timer fires once it is due: it leaves the timer list and its callback runs.
  The deadline's callback is \<open>handlePeerFail(connection)\<close> (lines 444 to 447).\<close>

definition fireTimer :: "world \<Rightarrow> nat \<Rightarrow> world" where
  "fireTimer w h =
     (case map_of (timers w) h of
        None \<Rightarrow> w
      | Some (due, act) \<Rightarrow>
          if clock w < due then w
          else
            (let w1 = w\<lparr>timers := filter (\<lambda>t. fst t \<noteq> h) (timers w)\<rparr>
             in case act of
                  ConnTimeout \<Rightarrow> handlePeerFail w1 False
                | PingTimeout id' \<Rightarrow> runMicrotasks (pingTimedOut w1 id')))"

text \<open>A \<open>pong\<close> message is delivered: \<open>handlePong\<close> runs, then the microtask queue.\<close>

definition pongArrives :: "world \<Rightarrow> nat \<Rightarrow> world" where
  "pongArrives w id' = runMicrotasks (handlePong w id')"

text \<open>Time passes between two handlers.\<close>

definition advance :: "world \<Rightarrow> nat \<Rightarrow> world" where
  "advance w d = w\<lparr>clock := clock w + int d\<rparr>"

subsection \<open>Two sides of one attempt pair, for the worked scenarios\<close>

text \<open>Side B is \<open>("b", "c1")\<close> and holds a fresh connection to \<open>("a", "c0")\<close>; side A is
  the mirror image.\<close>

definition swB :: swarm where
  "swB = \<lparr>myPeerId = ''b'', myConnId = ''c1'', sharedState = ''s'', sharedStateTime = 7\<rparr>"

definition swA :: swarm where
  "swA = \<lparr>myPeerId = ''a'', myConnId = ''c0'', sharedState = ''s'', sharedStateTime = 7\<rparr>"

definition sideB :: world where
  "sideB = initWorld 1000 swB (newConnection ''a'' ''c0'')"

definition sideA :: world where
  "sideA = initWorld 1000 swA (newConnection ''b'' ''c1'')"

subsection \<open>Pending deadlines, and the events of one run\<close>

text \<open>The due times of the pending timers whose callback is the deadline callback of
  \<open>timeoutPeer\<close>: the times at which \<open>handlePeerFail(connection)\<close> is scheduled to run.\<close>

definition deadlines :: "world \<Rightarrow> int list" where
  "deadlines w = map (\<lambda>t. fst (snd t)) (filter (\<lambda>t. snd (snd t) = ConnTimeout) (timers w))"

text \<open>The bookkeeping of the connection agrees with the timer list: a pending deadline
  timer is the one that \<open>connection.timeout\<close> holds, and it is due at
  \<open>connection.timeoutEnd\<close>.\<close>

definition deadline_inv :: "world \<Rightarrow> bool" where
  "deadline_inv w =
     (\<forall>t \<in> set (timers w). snd (snd t) = ConnTimeout \<longrightarrow>
         timeout (conn w) = Some (fst t) \<and> timeoutEnd (conn w) = Some (fst (snd t)))"

text \<open>Everything that can happen to one connection: the two exported entry points are
  called, a pong is delivered, a pending timer fires, the transport instance \<open>r\<close> fires one
  of its callbacks, or time passes.\<close>

datatype event =
  ConnectPeer
  | HandleSignal sigdata
  | PongArrives nat
  | TimerFires nat
  | Connect nat
  | Error nat
  | IceStateChange nat string
  | Close nat
  | Advance nat

fun step :: "world \<Rightarrow> event \<Rightarrow> world" where
  "step w ConnectPeer = connectPeer w"
| "step w (HandleSignal data) = handleSignal w data"
| "step w (PongArrives id') = pongArrives w id'"
| "step w (TimerFires h) = fireTimer w h"
| "step w (Connect r) = onConnect w r"
| "step w (Error r) = onError w r"
| "step w (IceStateChange r st) = onIceStateChange w r st"
| "step w (Close r) = onClose w r"
| "step w (Advance d) = advance w d"

definition run :: "world \<Rightarrow> event list \<Rightarrow> world" where
  "run w evs = foldl step w evs"

text \<open>Three closes of the live transport instance, 3000 ms apart, after side B connected.\<close>

definition closes3 :: "event list" where
  "closes3 = [ConnectPeer, Close 0, Advance 3000, Close 1, Advance 3000, Close 2]"

text \<open>Side A, the waiting side, after it called \<open>connectPeer\<close> and then received the first
  signal of the remote instance \<open>"Y"\<close>: it holds a live receiver instance recorded as
  coming from \<open>"Y"\<close>.  \<open>firstFromX\<close> and \<open>nextFromX\<close> are signals of another remote
  instance, \<open>"X"\<close>.\<close>

definition firstFromY :: sigdata where
  "firstFromY = \<lparr>youStart = False, first = True, dfrom = Some ''Y'', meta = None,
                 dtype = ''offer''\<rparr>"

definition firstFromX :: sigdata where
  "firstFromX = \<lparr>youStart = False, first = True, dfrom = Some ''X'', meta = None,
                 dtype = ''offer''\<rparr>"

definition nextFromX :: sigdata where
  "nextFromX = \<lparr>youStart = False, first = False, dfrom = Some ''X'', meta = None,
                dtype = ''candidate''\<rparr>"

definition sideA_receiving :: world where
  "sideA_receiving = handleSignal (connectPeer sideA) firstFromY"


section \<open>Properties\<close>

subsection \<open>Basic facts about timers and the connection record\<close>

lemma map_of_filter_other [simp]: "map_of (filter (\<lambda>t. fst t \<noteq> h) ts) h = None"
  by (simp add: map_of_eq_None_iff image_iff)

lemma conn_clearTimeout [simp]: "conn (clearTimeout w h) = conn w"
  by (cases h) simp_all

lemma clock_clearTimeout [simp]: "clock (clearTimeout w h) = clock w"
  by (cases h) simp_all

lemma timers_clearTimeout_conn [simp]:
  "timers (clearTimeout (w\<lparr>conn := c\<rparr>) h) = timers (clearTimeout w h)"
  by (cases h) simp_all

lemma conn_stopTimeout:
  "conn (stopTimeout w) = (conn w)\<lparr>timeout := None, timeoutMessage := [], timeoutEnd := Some 0\<rparr>"
  by (simp add: stopTimeout_def Let_def)

lemma timers_stopTimeout: "timers (stopTimeout w) = timers (clearTimeout w (timeout (conn w)))"
  by (simp add: stopTimeout_def Let_def)

lemmas eval_defs = sideA_def sideB_def swA_def swB_def initWorld_def newConnection_def
  connectPeer_def deathPing_def ping_def timeoutPeer_def setTimeout_def broadcast_def
  createPeer_def active_def iAmActive_def Let_def MAX_PING_TIME_def MAX_CONNECT_TIME_def
  destroy_def updPeer_def youStartData_def

text \<open>Side B calls \<open>connectPeer\<close> on its fresh connection: it is the active side.\<close>

lemma sideB_connected:
  "connectPeer sideB = \<lparr>clock = 1000, swarm = swB,
    conn = \<lparr>peerId = ''a'', connId = ''c0'', lastFailure = Some 1000,
         timeout = Some 2, timeoutEnd = Some 7000, timeoutMessage = [], pc = Some 0\<rparr>,
    peers = [\<lparr>initiator = True, p_peerId = ''a'', p_connId = ''c0'',
          connectStart = 1000, didSignal = False, garbage = False,
          destroyed = False, pfrom = None, remoteStreamIds = None, signalled = []\<rparr>],
    timers = [(2, 7000, ConnTimeout), (1, 6000, PingTimeout 0)],
    nextTimer = 3, pingCount = 1, pings = [0],
    promises = [(0, \<lparr>start = 1000, settled = Pending\<rparr>)], microtasks = [],
    outbox = [(''a'', Ping ''c0'' 0)], emitted = []\<rparr>"
  by (simp add: eval_defs)

subsection \<open>The deadline bookkeeping agrees with the timer list in every reachable world\<close>


lemma deadline_inv_cong:
  "timers w' = timers w \<Longrightarrow> timeout (conn w') = timeout (conn w)
   \<Longrightarrow> timeoutEnd (conn w') = timeoutEnd (conn w) \<Longrightarrow> deadline_inv w' = deadline_inv w"
  by (simp add: deadline_inv_def)

lemma deadline_inv_no_deadlines:
  "deadlines w = [] \<Longrightarrow> deadline_inv w"
  by (auto simp: deadline_inv_def deadlines_def filter_empty_conv)

lemma deadlines_clear_under_inv:
  "deadline_inv w \<Longrightarrow> deadlines (clearTimeout w (timeout (conn w))) = []"
  by (cases "timeout (conn w)") (auto simp: deadline_inv_def deadlines_def filter_empty_conv)

lemma deadlines_conn_upd [simp]: "deadlines (w\<lparr>conn := c\<rparr>) = deadlines w"
  by (simp add: deadlines_def)

lemma deadlines_clearTimeout_conn [simp]:
  "deadlines (clearTimeout (w\<lparr>conn := c\<rparr>) h) = deadlines (clearTimeout w h)"
  by (simp add: deadlines_def)

lemma deadlines_stopTimeout: "deadline_inv w \<Longrightarrow> deadlines (stopTimeout w) = []"
  using deadlines_clear_under_inv [of w] by (simp add: deadlines_def timers_stopTimeout)

lemma deadlines_timeoutPeer:
  "deadline_inv w \<Longrightarrow>
   deadlines (timeoutPeer w delay msg) =
     [clock w + max 0 (max (num_or (timeoutEnd (conn w)) 0 - clock w) delay)]"
  using deadlines_clear_under_inv [of w]
  by (simp add: timeoutPeer_def Let_def setTimeout_def deadlines_def)

lemma conn_timeoutPeer:
  "conn (timeoutPeer w delay msg) =
     (conn w)\<lparr>lastFailure := Some (num_or (lastFailure (conn w)) (clock w)),
              timeoutEnd := Some (clock w + max 0 (max (num_or (timeoutEnd (conn w)) 0 - clock w) delay)),
              timeoutMessage := (if msg \<noteq> [] then msg else timeoutMessage (conn w)),
              timeout := Some (nextTimer w)\<rparr>"
  by (cases "timeout (conn w)") (simp_all add: timeoutPeer_def Let_def setTimeout_def)

lemma timers_timeoutPeer:
  "timers (timeoutPeer w delay msg) =
     (nextTimer w, clock w + max 0 (max (num_or (timeoutEnd (conn w)) 0 - clock w) delay), ConnTimeout)
       # timers (clearTimeout w (timeout (conn w)))"
  by (cases "timeout (conn w)") (simp_all add: timeoutPeer_def Let_def setTimeout_def)

lemma deadline_inv_timeoutPeer: "deadline_inv w \<Longrightarrow> deadline_inv (timeoutPeer w delay msg)"
  using deadlines_clear_under_inv [of w]
  by (auto simp: deadline_inv_def conn_timeoutPeer timers_timeoutPeer deadlines_def filter_empty_conv)

lemma deadline_inv_stopTimeout: "deadline_inv w \<Longrightarrow> deadline_inv (stopTimeout w)"
  by (rule deadline_inv_no_deadlines) (rule deadlines_stopTimeout)


lemma deadline_inv_add_ping:
  "deadline_inv w \<Longrightarrow> timers w' = (h, d, PingTimeout i) # timers w \<Longrightarrow>
   timeout (conn w') = timeout (conn w) \<Longrightarrow> timeoutEnd (conn w') = timeoutEnd (conn w) \<Longrightarrow>
   deadline_inv w'"
  by (simp add: deadline_inv_def)

lemma deadline_inv_subset:
  "deadline_inv w \<Longrightarrow> set (timers w') \<subseteq> set (timers w) \<Longrightarrow>
   timeout (conn w') = timeout (conn w) \<Longrightarrow> timeoutEnd (conn w') = timeoutEnd (conn w) \<Longrightarrow>
   deadline_inv w'"
  by (auto simp: deadline_inv_def)

lemma conn_ping [simp]: "conn (fst (ping w t)) = conn w"
  by (simp add: ping_def Let_def setTimeout_def broadcast_def)

lemma timers_ping:
  "timers (fst (ping w t)) = (nextTimer w, clock w + t, PingTimeout (pingCount w)) # timers w"
  by (simp add: ping_def Let_def setTimeout_def broadcast_def)

lemma clock_ping [simp]: "clock (fst (ping w t)) = clock w"
  by (simp add: ping_def Let_def setTimeout_def broadcast_def)

lemma deadline_inv_deathPing: "deadline_inv w \<Longrightarrow> deadline_inv (deathPing w)"
  unfolding deathPing_def
  by (erule deadline_inv_add_ping [OF _ timers_ping]) simp_all

lemma timers_updPeer [simp]: "timers (updPeer w r f) = timers w"
  by (simp add: updPeer_def)

lemma conn_updPeer [simp]: "conn (updPeer w r f) = conn w"
  by (simp add: updPeer_def)

lemma timers_destroy [simp]: "timers (destroy w r) = timers w"
  by (simp add: destroy_def)

lemma conn_destroy [simp]: "conn (destroy w r) = conn w"
  by (simp add: destroy_def)

lemma timers_broadcast [simp]: "timers (broadcast w t m) = timers w"
  by (simp add: broadcast_def)

lemma conn_broadcast [simp]: "conn (broadcast w t m) = conn w"
  by (simp add: broadcast_def)

lemma timers_emit [simp]: "timers (emit w e) = timers w"
  by (simp add: emit_def)

lemma conn_emit [simp]: "conn (emit w e) = conn w"
  by (simp add: emit_def)

lemma timers_createPeer [simp]: "timers (fst (createPeer w i)) = timers w"
  by (cases "pc (conn w)") (simp_all add: createPeer_def Let_def)

lemma conn_createPeer:
  "conn (fst (createPeer w i)) = (conn w)\<lparr>pc := Some (length (peers w))\<rparr>"
  by (cases "pc (conn w)") (simp_all add: createPeer_def Let_def destroy_def updPeer_def)

lemma deadline_inv_createPeer: "deadline_inv w \<Longrightarrow> deadline_inv (fst (createPeer w i))"
  by (erule deadline_inv_subset) (simp_all add: conn_createPeer)

lemma deadline_inv_connectPeer: "deadline_inv w \<Longrightarrow> deadline_inv (connectPeer w)"
proof -
  assume "deadline_inv w"
  then have a: "deadline_inv (timeoutPeer (deathPing w) MAX_CONNECT_TIME [])"
    by (intro deadline_inv_timeoutPeer deadline_inv_deathPing)
  show ?thesis
    unfolding connectPeer_def Let_def
    by (auto intro!: deadline_inv_createPeer a deadline_inv_subset [OF a] split: option.splits)
qed

lemma deadline_inv_handlePeerFail: "deadline_inv w \<Longrightarrow> deadline_inv (handlePeerFail w f)"
proof -
  assume "deadline_inv w"
  then have "deadline_inv (stopTimeout w)" by (rule deadline_inv_stopTimeout)
  then have a: "deadline_inv ((stopTimeout w)\<lparr>conn := (conn (stopTimeout w))\<lparr>lastFailure := Some x\<rparr>\<rparr>)" for x
    by (rule deadline_inv_subset) simp_all
  show ?thesis
    unfolding handlePeerFail_def Let_def
    by (auto intro!: deadline_inv_connectPeer a deadline_inv_subset [OF a])
qed

lemma deadline_inv_handlePeerSuccess: "deadline_inv w \<Longrightarrow> deadline_inv (handlePeerSuccess w)"
  unfolding handlePeerSuccess_def
  by (rule deadline_inv_stopTimeout) (erule deadline_inv_subset, simp_all)

lemma deadline_inv_addToTimeout: "deadline_inv w \<Longrightarrow> deadline_inv (addToTimeout w d)"
  by (simp add: addToTimeout_def deadline_inv_timeoutPeer)

lemma timers_addPeerMetaData [simp]: "timers (addPeerMetaData w r m) = timers w"
  by (cases m) (simp_all add: addPeerMetaData_def)

lemma conn_addPeerMetaData [simp]: "conn (addPeerMetaData w r m) = conn w"
  by (cases m) (simp_all add: addPeerMetaData_def)

lemma deadline_inv_updPeer [simp]: "deadline_inv (updPeer w r f) = deadline_inv w"
  by (rule deadline_inv_cong) simp_all

lemma deadline_inv_addPeerMetaData [simp]: "deadline_inv (addPeerMetaData w r m) = deadline_inv w"
  by (rule deadline_inv_cong) simp_all

lemma deadline_inv_handleSignal: "deadline_inv w \<Longrightarrow> deadline_inv (handleSignal w data)"
  unfolding handleSignal_def Let_def
  by (auto simp: split_def intro!: deadline_inv_createPeer deadline_inv_connectPeer
      deadline_inv_addToTimeout split: option.splits)

lemma timers_resolve [simp]: "timers (resolve w i v) = timers w"
  by (simp add: resolve_def split: option.splits resolution.splits)

lemma conn_resolve [simp]: "conn (resolve w i v) = conn w"
  by (simp add: resolve_def split: option.splits resolution.splits)

lemma deadline_inv_handlePong: "deadline_inv w \<Longrightarrow> deadline_inv (handlePong w i)"
  by (erule deadline_inv_subset) (simp_all add: handlePong_def Let_def split: option.splits)

lemma deadline_inv_pingTimedOut: "deadline_inv w \<Longrightarrow> deadline_inv (pingTimedOut w i)"
  by (erule deadline_inv_subset) (simp_all add: pingTimedOut_def Let_def)

lemma deadline_inv_deathPingThen: "deadline_inv w \<Longrightarrow> deadline_inv (deathPingThen w ms)"
  by (simp add: deathPingThen_def deadline_inv_handlePeerFail)

lemma deadline_inv_foldl_then:
  "deadline_inv w \<Longrightarrow> deadline_inv (foldl deathPingThen w vs)"
  by (induction vs arbitrary: w) (simp_all add: deadline_inv_deathPingThen)

lemma deadline_inv_runMicrotasks: "deadline_inv w \<Longrightarrow> deadline_inv (runMicrotasks w)"
  unfolding runMicrotasks_def
  by (rule deadline_inv_foldl_then) (erule deadline_inv_subset, simp_all)

lemma deadline_inv_fireTimer: "deadline_inv w \<Longrightarrow> deadline_inv (fireTimer w h)"
proof -
  assume inv: "deadline_inv w"
  then have a: "deadline_inv (w\<lparr>timers := filter (\<lambda>t. fst t \<noteq> h) (timers w)\<rparr>)"
    by (rule deadline_inv_subset) auto
  show ?thesis
    unfolding fireTimer_def Let_def
    by (auto simp: inv split: option.splits timerAction.splits
        intro!: deadline_inv_handlePeerFail deadline_inv_runMicrotasks deadline_inv_pingTimedOut a)
qed

lemma deadline_inv_onIceStateChange: "deadline_inv w \<Longrightarrow> deadline_inv (onIceStateChange w r st)"
  unfolding onIceStateChange_def Let_def
  by (auto intro!: deadline_inv_handlePeerSuccess deadline_inv_timeoutPeer deadline_inv_deathPing)

lemma deadline_inv_advance: "deadline_inv w \<Longrightarrow> deadline_inv (advance w d)"
  by (simp add: advance_def deadline_inv_def)

lemma deadline_inv_step: "deadline_inv w \<Longrightarrow> deadline_inv (step w e)"
  by (cases e)
    (simp_all add: deadline_inv_connectPeer deadline_inv_handleSignal pongArrives_def
      deadline_inv_runMicrotasks deadline_inv_handlePong deadline_inv_fireTimer onConnect_def
      deadline_inv_handlePeerSuccess onError_def deadline_inv_onIceStateChange onClose_def
      deadline_inv_handlePeerFail deadline_inv_advance)

lemma deadline_inv_run: "deadline_inv w \<Longrightarrow> deadline_inv (run w evs)"
  unfolding run_def by (induction evs arbitrary: w) (simp_all add: deadline_inv_step)

lemma deadline_inv_init: "deadline_inv (initWorld t sw c)"
  by (simp add: deadline_inv_def initWorld_def)

lemma deadline_inv_reachable: "deadline_inv (run (initWorld t sw c) evs)"
  by (rule deadline_inv_run) (rule deadline_inv_init)

lemma peers_ping [simp]: "peers (fst (ping w t)) = peers w"
  by (simp add: ping_def Let_def setTimeout_def broadcast_def)

lemma swarm_ping [simp]: "swarm (fst (ping w t)) = swarm w"
  by (simp add: ping_def Let_def setTimeout_def broadcast_def)

lemma emitted_ping [simp]: "emitted (fst (ping w t)) = emitted w"
  by (simp add: ping_def Let_def setTimeout_def broadcast_def)

lemma outbox_ping:
  "outbox (fst (ping w t)) = outbox w @ [(peerId (conn w), Ping (connId (conn w)) (pingCount w))]"
  by (simp add: ping_def Let_def setTimeout_def broadcast_def)

lemma clock_timeoutPeer [simp]: "clock (timeoutPeer w d m) = clock w"
  by (cases "timeout (conn w)") (simp_all add: timeoutPeer_def Let_def setTimeout_def)

lemma peers_timeoutPeer [simp]: "peers (timeoutPeer w d m) = peers w"
  by (cases "timeout (conn w)") (simp_all add: timeoutPeer_def Let_def setTimeout_def)

lemma swarm_timeoutPeer [simp]: "swarm (timeoutPeer w d m) = swarm w"
  by (cases "timeout (conn w)") (simp_all add: timeoutPeer_def Let_def setTimeout_def)

lemma emitted_timeoutPeer [simp]: "emitted (timeoutPeer w d m) = emitted w"
  by (cases "timeout (conn w)") (simp_all add: timeoutPeer_def Let_def setTimeout_def)

lemma outbox_timeoutPeer [simp]: "outbox (timeoutPeer w d m) = outbox w"
  by (cases "timeout (conn w)") (simp_all add: timeoutPeer_def Let_def setTimeout_def)

lemma emitted_createPeer [simp]: "emitted (fst (createPeer w i)) = emitted w"
  by (cases "pc (conn w)") (simp_all add: createPeer_def Let_def destroy_def updPeer_def)

lemma outbox_createPeer [simp]: "outbox (fst (createPeer w i)) = outbox w"
  by (cases "pc (conn w)") (simp_all add: createPeer_def Let_def destroy_def updPeer_def)

lemma clock_createPeer [simp]: "clock (fst (createPeer w i)) = clock w"
  by (cases "pc (conn w)") (simp_all add: createPeer_def Let_def destroy_def updPeer_def)

text \<open>Marking an instance garbage and destroying it, as one heap update.\<close>

lemma peers_retire:
  "peers (destroy (updPeer w old (\<lambda>p. p\<lparr>garbage := True\<rparr>)) old)
     = (peers w)[old := (peers w ! old)\<lparr>garbage := True, destroyed := True\<rparr>]"
  by (cases "old < length (peers w)") (simp_all add: destroy_def updPeer_def list_update_beyond)

lemma peers_createPeer:
  "peers (fst (createPeer w i)) =
     (case pc (conn w) of
        None \<Rightarrow> peers w
      | Some old \<Rightarrow> (peers w)[old := (peers w ! old)\<lparr>garbage := True, destroyed := True\<rparr>])
     @ [\<lparr>initiator = i, p_peerId = peerId (conn w), p_connId = connId (conn w),
         connectStart = clock w, didSignal = False, garbage = False, destroyed = False,
         pfrom = None, remoteStreamIds = None, signalled = []\<rparr>]"
  by (cases "pc (conn w)") (simp_all add: createPeer_def Let_def peers_retire, simp_all add: destroy_def updPeer_def)

lemma snd_createPeer: "snd (createPeer w i) = length (peers w)"
  by (cases "pc (conn w)") (simp_all add: createPeer_def Let_def destroy_def updPeer_def)

lemma conn_deathPing [simp]: "conn (deathPing w) = conn w"
  by (simp add: deathPing_def)

lemma swarm_deathPing [simp]: "swarm (deathPing w) = swarm w"
  by (simp add: deathPing_def)

lemma clock_deathPing [simp]: "clock (deathPing w) = clock w"
  by (simp add: deathPing_def)

lemma peers_deathPing [simp]: "peers (deathPing w) = peers w"
  by (simp add: deathPing_def)

lemma emitted_deathPing [simp]: "emitted (deathPing w) = emitted w"
  by (simp add: deathPing_def)

lemma nextTimer_deathPing [simp]: "nextTimer (deathPing w) = Suc (nextTimer w)"
  by (simp add: deathPing_def ping_def Let_def setTimeout_def broadcast_def)

lemma outbox_deathPing:
  "outbox (deathPing w) = outbox w @ [(peerId (conn w), Ping (connId (conn w)) (pingCount w))]"
  by (simp add: deathPing_def outbox_ping)

lemma active_cong:
  "swarm w' = swarm w \<Longrightarrow> peerId (conn w') = peerId (conn w) \<Longrightarrow>
   connId (conn w') = connId (conn w) \<Longrightarrow> active w' = active w"
  by (simp add: active_def)

lemma active_armed [simp]: "active (timeoutPeer (deathPing w) d m) = active w"
  by (rule active_cong) (simp_all add: conn_timeoutPeer)

lemma connectPeer_active:
  "active w \<Longrightarrow> connectPeer w = fst (createPeer (timeoutPeer (deathPing w) MAX_CONNECT_TIME []) True)"
  by (simp add: connectPeer_def Let_def)

lemma connectPeer_passive:
  "\<not> active w \<Longrightarrow> connectPeer w =
     (let w2 = timeoutPeer (deathPing w) MAX_CONNECT_TIME [];
          w3 = broadcast w2 (peerId (conn w))
                 (Signal (connId (conn w)) (Some (sharedState (swarm w), sharedStateTime (swarm w)))
                    youStartData)
      in case pc (conn w) of
           Some old \<Rightarrow> destroy (updPeer w3 old (\<lambda>p. p\<lparr>garbage := True\<rparr>)) old
         | None \<Rightarrow> w3)"
  by (simp add: connectPeer_def Let_def conn_timeoutPeer)

lemma emitted_connectPeer [simp]: "emitted (connectPeer w) = emitted w"
  by (cases "active w"; cases "pc (conn w)")
    (simp_all add: connectPeer_active connectPeer_passive Let_def destroy_def
      updPeer_def broadcast_def)

lemma clock_connectPeer [simp]: "clock (connectPeer w) = clock w"
  by (cases "active w"; cases "pc (conn w)")
    (simp_all add: connectPeer_active connectPeer_passive Let_def destroy_def
      updPeer_def broadcast_def)

lemma conn_connectPeer:
  "conn (connectPeer w) =
     (conn w)\<lparr>lastFailure := Some (num_or (lastFailure (conn w)) (clock w)),
              timeoutEnd := Some (clock w + max 0 (max (num_or (timeoutEnd (conn w)) 0 - clock w) MAX_CONNECT_TIME)),
              timeout := Some (Suc (nextTimer w)),
              pc := (if active w then Some (length (peers w)) else pc (conn w))\<rparr>"
  by (cases "active w"; cases "pc (conn w)")
    (simp_all add: connectPeer_active connectPeer_passive Let_def
      conn_createPeer conn_timeoutPeer)

lemma deadlines_cong: "timers w' = timers w \<Longrightarrow> deadlines w' = deadlines w"
  by (simp add: deadlines_def)

lemma deadlines_deathPing [simp]: "deadlines (deathPing w) = deadlines w"
  by (simp add: deadlines_def deathPing_def timers_ping)

lemma timers_connectPeer:
  "timers (connectPeer w) = timers (timeoutPeer (deathPing w) MAX_CONNECT_TIME [])"
  by (cases "active w"; cases "pc (conn w)")
    (simp_all add: connectPeer_active connectPeer_passive Let_def)

lemma deadlines_connectPeer:
  "deadline_inv w \<Longrightarrow>
   deadlines (connectPeer w)
     = [clock w + max 0 (max (num_or (timeoutEnd (conn w)) 0 - clock w) MAX_CONNECT_TIME)]"
  using deadlines_timeoutPeer [OF deadline_inv_deathPing, of w MAX_CONNECT_TIME "[]"]
  by (simp add: deadlines_cong [OF timers_connectPeer])

lemma clock_stopTimeout [simp]: "clock (stopTimeout w) = clock w"
  by (simp add: stopTimeout_def Let_def)

lemma peers_clearTimeout [simp]: "peers (clearTimeout w h) = peers w"
  by (cases h) simp_all

lemma outbox_clearTimeout [simp]: "outbox (clearTimeout w h) = outbox w"
  by (cases h) simp_all

lemma emitted_clearTimeout [simp]: "emitted (clearTimeout w h) = emitted w"
  by (cases h) simp_all

lemma peers_stopTimeout [simp]: "peers (stopTimeout w) = peers w"
  by (simp add: stopTimeout_def Let_def)

lemma outbox_stopTimeout [simp]: "outbox (stopTimeout w) = outbox w"
  by (simp add: stopTimeout_def Let_def)

lemma emitted_stopTimeout [simp]: "emitted (stopTimeout w) = emitted w"
  by (simp add: stopTimeout_def Let_def)

text \<open>The world in which \<open>handlePeerFail\<close> takes its decision: the deadline stopped, the
  failure window started if it was not running.\<close>

lemma handlePeerFail_terminal:
  "forced \<or> clock w - num_or (lastFailure (conn w)) (clock w) > MAX_FAIL_TIME \<Longrightarrow>
   handlePeerFail w forced =
     emit ((stopTimeout w)\<lparr>conn := (conn (stopTimeout w))
             \<lparr>lastFailure := Some (num_or (lastFailure (conn w)) (clock w))\<rparr>\<rparr>) FailedConnection"
  by (auto simp: handlePeerFail_def Let_def conn_stopTimeout)

lemma handlePeerFail_retry:
  "\<not> (forced \<or> clock w - num_or (lastFailure (conn w)) (clock w) > MAX_FAIL_TIME) \<Longrightarrow>
   handlePeerFail w forced =
     connectPeer ((stopTimeout w)\<lparr>conn := (conn (stopTimeout w))
             \<lparr>lastFailure := Some (num_or (lastFailure (conn w)) (clock w))\<rparr>\<rparr>)"
  by (auto simp: handlePeerFail_def Let_def conn_stopTimeout)

lemma num_or_idem [simp]: "num_or (Some (num_or x d)) d = num_or x d"
  by (cases x) simp_all

lemma num_or_zero: "num_or x d = 0 \<Longrightarrow> d = 0"
  by (cases x) (simp_all split: if_splits)

lemma conn_advance [simp]: "conn (advance w d) = conn w"
  by (simp add: advance_def)

lemma clock_advance [simp]: "clock (advance w d) = clock w + int d"
  by (simp add: advance_def)

lemma emitted_advance [simp]: "emitted (advance w d) = emitted w"
  by (simp add: advance_def)

text \<open>The failure window runs from the \<open>connectPeer\<close> call: a failure reported \<open>d\<close>
  milliseconds after it (and before any success) is terminal exactly when \<open>d\<close> exceeds
  \<open>MAX_FAIL_TIME\<close>.  (A clock reading of \<open>0\<close> is falsy and would be taken for an unset
  \<open>lastFailure\<close>.)\<close>

lemma failure_window_from_connect:
  assumes "lastFailure (conn w) = None" and "clock w \<noteq> 0"
  shows "emitted (handlePeerFail (advance (connectPeer w) d) False)
           = (if int d > MAX_FAIL_TIME then emitted w @ [FailedConnection] else emitted w)"
proof -
  let ?v = "advance (connectPeer w) d"
  have lf: "num_or (lastFailure (conn ?v)) (clock ?v) = clock w"
    using assms by (simp add: conn_connectPeer)
  show ?thesis
  proof (cases "int d > MAX_FAIL_TIME")
    case True
    then show ?thesis
      by (subst handlePeerFail_terminal) (simp_all only: lf, simp_all add: emit_def)
  next
    case False
    then show ?thesis
      by (subst handlePeerFail_retry) (simp_all only: lf, simp_all)
  qed
qed

lemma peers_connectPeer:
  "peers (connectPeer w) =
     (case pc (conn w) of
        None \<Rightarrow> peers w
      | Some old \<Rightarrow> (peers w)[old := (peers w ! old)\<lparr>garbage := True, destroyed := True\<rparr>])
     @ (if active w
        then [\<lparr>initiator = True, p_peerId = peerId (conn w), p_connId = connId (conn w),
               connectStart = clock w, didSignal = False, garbage = False, destroyed = False,
               pfrom = None, remoteStreamIds = None, signalled = []\<rparr>]
        else [])"
proof (cases "active w")
  case True
  then show ?thesis
    by (simp add: connectPeer_active peers_createPeer conn_timeoutPeer split: option.splits)
next
  case False
  have "peers (destroy (updPeer v old (\<lambda>p. p\<lparr>garbage := True\<rparr>)) old)
          = (peers w)[old := (peers w ! old)\<lparr>garbage := True, destroyed := True\<rparr>]"
    if "peers v = peers w" for v old
    using peers_retire [of v old] that by simp
  with False show ?thesis
    by (simp add: connectPeer_passive Let_def broadcast_def split: option.splits)
qed

lemma outbox_updPeer [simp]: "outbox (updPeer w r f) = outbox w"
  by (simp add: updPeer_def)

lemma outbox_destroy [simp]: "outbox (destroy w r) = outbox w"
  by (simp add: destroy_def)

lemma outbox_connectPeer:
  "outbox (connectPeer w) =
     outbox w @ (peerId (conn w), Ping (connId (conn w)) (pingCount w))
       # (if active w then []
          else [(peerId (conn w),
                 Signal (connId (conn w)) (Some (sharedState (swarm w), sharedStateTime (swarm w)))
                   youStartData)])"
  by (cases "active w"; cases "pc (conn w)")
    (simp_all add: connectPeer_active connectPeer_passive Let_def outbox_deathPing broadcast_def)

lemma createPeer_fresh:
  "pc (conn w) = None \<Longrightarrow>
   fst (createPeer w i) =
     w\<lparr>peers := peers w @ [\<lparr>initiator = i, p_peerId = peerId (conn w),
                             p_connId = connId (conn w), connectStart = clock w,
                             didSignal = False, garbage = False, destroyed = False,
                             pfrom = None, remoteStreamIds = None, signalled = []\<rparr>],
       conn := (conn w)\<lparr>pc := Some (length (peers w))\<rparr>\<rparr>"
  by (simp add: createPeer_def Let_def)

lemma sideA_receiving_eval:
  "sideA_receiving = \<lparr>clock = 1000, swarm = swA,
    conn = \<lparr>peerId = ''b'', connId = ''c1'', lastFailure = Some 1000,
         timeout = Some 2, timeoutEnd = Some 7000, timeoutMessage = [], pc = Some 0\<rparr>,
    peers = [\<lparr>initiator = False, p_peerId = ''b'', p_connId = ''c1'',
          connectStart = 1000, didSignal = False, garbage = False,
          destroyed = False, pfrom = Some ''Y'', remoteStreamIds = None,
          signalled = [firstFromY]\<rparr>],
    timers = [(2, 7000, ConnTimeout), (1, 6000, PingTimeout 0)],
    nextTimer = 3, pingCount = 1, pings = [0],
    promises = [(0, \<lparr>start = 1000, settled = Pending\<rparr>)], microtasks = [],
    outbox = [(''b'', Ping ''c1'' 0),
       (''b'', Signal ''c1'' (Some (''s'', 7))
         \<lparr>youStart = True, first = False, dfrom = None, meta = None,
            dtype = ''you-start''\<rparr>)],
    emitted = []\<rparr>"
  by (simp add: sideA_receiving_def handleSignal_def addPeerMetaData_def firstFromY_def eval_defs)


lemma onClose_live: "\<not> garbage (peers w ! r) \<Longrightarrow> onClose w r = handlePeerFail w False"
  by (simp add: onClose_def)

lemma deathPingThen_rtt: "ms \<noteq> 0 \<Longrightarrow> deathPingThen w (Some ms) = w"
  by (simp add: deathPingThen_def)

lemma deathPingThen_zero: "deathPingThen w (Some 0) = handlePeerFail w True"
  by (simp add: deathPingThen_def)

lemma deathPingThen_timed_out: "deathPingThen w None = handlePeerFail w True"
  by (simp add: deathPingThen_def)

text \<open>A pong for a pending probe: the promise is settled with the round-trip time and the
  probe leaves the registry.  If the round-trip time is not \<open>0\<close> nothing else happens.\<close>

lemma pong_in_time:
  assumes "id' \<in> set (pings w)" and "map_of (promises w) id' = Some p"
    and "settled p = Pending" and "microtasks w = []" and "clock w \<noteq> start p"
  shows "pongArrives w id' =
           w\<lparr>promises := map (\<lambda>q. if fst q = id'
                                   then (id', p\<lparr>settled := Resolved (Some (clock w - start p))\<rparr>)
                                   else q) (promises w),
             pings := removeAll id' (pings w)\<rparr>"
  using assms
  by (simp add: pongArrives_def handlePong_def resolve_def runMicrotasks_def Let_def
      deathPingThen_def)

text \<open>The probe's timer fires while the promise is pending: the promise is settled as timed
  out and the failure is forced.\<close>

lemma ping_timer_forces_failure:
  assumes "map_of (timers w) h = Some (due, PingTimeout id')" and "due \<le> clock w"
    and "map_of (promises w) id' = Some p" and "settled p = Pending" and "microtasks w = []"
  shows "fireTimer w h =
           handlePeerFail
             (w\<lparr>timers := filter (\<lambda>t. fst t \<noteq> h) (timers w),
                promises := map (\<lambda>q. if fst q = id' then (id', p\<lparr>settled := Resolved None\<rparr>)
                                       else q) (promises w),
                pings := removeAll id' (pings w),
                microtasks := []\<rparr>) True"
  using assms
  by (simp add: fireTimer_def pingTimedOut_def resolve_def runMicrotasks_def Let_def
      deathPingThen_def)

text \<open>After the pong, the probe's timer finds the promise settled and does nothing more
  than leave the timer list.\<close>

lemma ping_timer_after_pong:
  assumes "map_of (timers w) h = Some (due, PingTimeout id')" and "due \<le> clock w"
    and "map_of (promises w) id' = Some p" and "settled p = Resolved v" and "microtasks w = []"
  shows "fireTimer w h =
           w\<lparr>timers := filter (\<lambda>t. fst t \<noteq> h) (timers w), pings := removeAll id' (pings w)\<rparr>"
  using assms
  by (simp add: fireTimer_def pingTimedOut_def resolve_def runMicrotasks_def Let_def)

text \<open>The scenario of the specification: the pong arrives 40 ms after the ping.\<close>

lemma scenario_pong_after_40ms:
  "promises (pongArrives (advance (connectPeer sideB) 40) 0)
     = [(0, \<lparr>start = 1000, settled = Resolved (Some 40)\<rparr>)]
   \<and> emitted (pongArrives (advance (connectPeer sideB) 40) 0) = []
   \<and> conn (pongArrives (advance (connectPeer sideB) 40) 0) = conn (connectPeer sideB)"
  unfolding sideB_connected
  by (simp add: advance_def pongArrives_def handlePong_def resolve_def runMicrotasks_def
      deathPingThen_def Let_def)

lemma length_peers_connectPeer:
  "length (peers (connectPeer w)) = (if active w then Suc (length (peers w)) else length (peers w))"
  by (cases "pc (conn w)") (simp_all add: peers_connectPeer)

lemma tie_break_flip:
  fixes pA pB :: "'p::linorder" and cA cB :: "'c::linorder"
  shows "pA \<noteq> pB \<or> cA \<noteq> cB \<Longrightarrow> iAmActive pA cA pB cB = (\<not> iAmActive pB cB pA cA)"
  unfolding iAmActive_def by auto

text \<open>Two sides that look at each other: each one's own pair is the other's remote pair.
  Exactly one of them takes the initiator branch of \<open>connectPeer\<close> and creates an instance.\<close>

lemma exactly_one_side_initiates:
  assumes "myPeerId (swarm wA) = peerId (conn wB)" and "myConnId (swarm wA) = connId (conn wB)"
    and "myPeerId (swarm wB) = peerId (conn wA)" and "myConnId (swarm wB) = connId (conn wA)"
    and "(peerId (conn wA), connId (conn wA)) \<noteq> (peerId (conn wB), connId (conn wB))"
  shows "active wA = (\<not> active wB)"
    and "(length (peers (connectPeer wA)) = Suc (length (peers wA)))
           = (length (peers (connectPeer wB)) = length (peers wB))"
proof -
  show a: "active wA = (\<not> active wB)"
  proof -
    from assms(5) have "peerId (conn wB) \<noteq> peerId (conn wA) \<or> connId (conn wB) \<noteq> connId (conn wA)"
      by auto
    from tie_break_flip [OF this] show ?thesis
      unfolding active_def by (simp only: assms(1-4))
  qed
  then show "(length (peers (connectPeer wA)) = Suc (length (peers wA)))
           = (length (peers (connectPeer wB)) = length (peers wB))"
    by (cases "active wB") (simp_all add: length_peers_connectPeer)
qed

subsection \<open>C1: the tie-break selects exactly one side\<close>

text \<open>
  Claim C1.  Side A is \<open>(pA, cA)\<close> and looks at the remote attempt \<open>(pB, cB)\<close>; side B is
  \<open>(pB, cB)\<close> and looks at \<open>(pA, cA)\<close>.  Whenever the two pairs differ, the expression that
  \<open>connectPeer\<close> and \<open>handleSignal\<close> evaluate is true on exactly one side: A is active
  if and only if B is not.
\<close>

theorem tie_break_exactly_one:
  assumes "(pA, cA) \<noteq> (pB, cB)"
  shows "iAmActive pA cA pB cB = (\<not> iAmActive pB cB pA cA)"
  using assms unfolding iAmActive_def by auto

theorem tie_break_exactly_one_witness:
  "(''b'', ''c1'') \<noteq> (''a'', ''c0'') \<and> iAmActive ''b'' ''c1'' ''a'' ''c0''
   \<and> \<not> iAmActive ''a'' ''c0'' ''b'' ''c1''"
  using tie_break_exactly_one [of "''b''" "''c1''" "''a''" "''c0''"]
  by (simp add: iAmActive_def)

subsection \<open>C9: success clears the deadline and the failure window\<close>

text \<open>
  Claim C9.  In every world, after \<open>handlePeerSuccess\<close> the connection has no failure
  start (\<open>lastFailure\<close> is \<open>null\<close>), no timer handle, the deadline bookkeeping \<open>timeoutEnd\<close>
  is \<open>0\<close> and the message is empty; the timer that \<open>connection.timeout\<close> referred to has
  been cleared, so it is no longer pending and firing it does nothing.  Where the bookkeeping
  agreed with the timer list before, no deadline at all is pending afterwards.
\<close>

theorem handlePeerSuccess_clears:
  "lastFailure (conn (handlePeerSuccess w)) = None
   \<and> timeout (conn (handlePeerSuccess w)) = None
   \<and> timeoutEnd (conn (handlePeerSuccess w)) = Some 0
   \<and> timeoutMessage (conn (handlePeerSuccess w)) = []
   \<and> timers (handlePeerSuccess w) = timers (clearTimeout w (timeout (conn w)))
   \<and> (\<forall>h. timeout (conn w) = Some h \<longrightarrow>
         map_of (timers (handlePeerSuccess w)) h = None
         \<and> fireTimer (handlePeerSuccess w) h = handlePeerSuccess w)
   \<and> (deadline_inv w \<longrightarrow> deadlines (handlePeerSuccess w) = [])"
proof -
  have "deadlines (handlePeerSuccess w) = []" if "deadline_inv w"
  proof -
    from that have "deadline_inv (w\<lparr>conn := (conn w)\<lparr>lastFailure := None\<rparr>\<rparr>)"
      by (rule deadline_inv_subset) simp_all
    then show ?thesis
      unfolding handlePeerSuccess_def by (rule deadlines_stopTimeout)
  qed
  then show ?thesis
    by (simp add: handlePeerSuccess_def conn_stopTimeout timers_stopTimeout fireTimer_def)
qed

theorem handlePeerSuccess_clears_witness:
  "timeout (conn (connectPeer sideB)) = Some 2
   \<and> map_of (timers (connectPeer sideB)) 2 = Some (7000, ConnTimeout)
   \<and> map_of (timers (handlePeerSuccess (connectPeer sideB))) 2 = None
   \<and> lastFailure (conn (connectPeer sideB)) = Some 1000
   \<and> lastFailure (conn (handlePeerSuccess (connectPeer sideB))) = None
   \<and> deadline_inv (connectPeer sideB)
   \<and> deadlines (connectPeer sideB) = [7000]
   \<and> deadlines (handlePeerSuccess (connectPeer sideB)) = []"
proof -
  have i: "deadline_inv (connectPeer sideB)"
    by (simp add: deadline_inv_connectPeer sideB_def deadline_inv_init)
  have d: "deadlines (connectPeer sideB) = [7000]"
    by (simp add: sideB_connected deadlines_def)
  show ?thesis
    using handlePeerSuccess_clears [of "connectPeer sideB"] i d
    by (simp add: sideB_connected)
qed

subsection \<open>C3: arming a deadline never pulls an armed deadline earlier\<close>

text \<open>
  Claim C3.  Take a world whose bookkeeping agrees with its timer list (as it does in every
  reachable world, \<open>deadline_inv_reachable\<close>) and in which a deadline is armed, due at
  \<open>due\<close>.  After \<open>timeoutPeer\<close> with any requested delay there is exactly one pending
  deadline; it is due at now plus the maximum of 0, the remaining time \<open>due - now\<close> and the
  requested delay, which is never earlier than \<open>due\<close>; and \<open>timeoutEnd\<close> records the
  same time.
\<close>

theorem timeoutPeer_never_earlier:
  assumes "deadline_inv w" and "due \<in> set (deadlines w)"
  shows "deadlines (timeoutPeer w delay msg) = [clock w + max 0 (max (due - clock w) delay)]
         \<and> due \<le> clock w + max 0 (max (due - clock w) delay)
         \<and> timeoutEnd (conn (timeoutPeer w delay msg))
             = Some (clock w + max 0 (max (due - clock w) delay))"
proof -
  from assms have "timeoutEnd (conn w) = Some due"
    by (auto simp: deadline_inv_def deadlines_def)
  then have "num_or (timeoutEnd (conn w)) 0 = due" by simp
  with assms(1) show ?thesis
    by (simp add: deadlines_timeoutPeer conn_timeoutPeer)
qed

theorem timeoutPeer_never_earlier_witness:
  "deadline_inv (advance (connectPeer sideB) 1000)
   \<and> 7000 \<in> set (deadlines (advance (connectPeer sideB) 1000))
   \<and> clock (advance (connectPeer sideB) 1000) = 2000
   \<and> deadlines (timeoutPeer (advance (connectPeer sideB) 1000) 2000 []) = [7000]
   \<and> deadlines (timeoutPeer (advance (connectPeer sideB) 1000) 9000 []) = [11000]"
proof -
  have inv: "deadline_inv (advance (connectPeer sideB) 1000)"
    by (simp add: sideB_connected advance_def deadline_inv_def)
  have arm: "7000 \<in> set (deadlines (advance (connectPeer sideB) 1000))"
    by (simp add: sideB_connected advance_def deadlines_def)
  have clk: "clock (advance (connectPeer sideB) 1000) = 2000"
    by (simp add: sideB_connected advance_def)
  show ?thesis
    using timeoutPeer_never_earlier [OF inv arm, of 2000 "[]"]
      timeoutPeer_never_earlier [OF inv arm, of 9000 "[]"] inv arm clk
    by simp
qed

subsection \<open>C10: arming a deadline starts the failure window\<close>

text \<open>
  Claim C10.  On a connection whose \<open>lastFailure\<close> is unset, \<open>timeoutPeer\<close> sets
  \<open>lastFailure\<close> to the current time, whatever the delay and the message; so does
  \<open>connectPeer\<close>, which arms the connect deadline through \<open>timeoutPeer\<close>.  The failure
  window of \<open>handlePeerFail\<close> is therefore measured from the \<open>connectPeer\<close> call.
\<close>

theorem timeoutPeer_starts_failure_window:
  assumes "lastFailure (conn w) = None"
  shows "lastFailure (conn (timeoutPeer w delay msg)) = Some (clock w)
         \<and> lastFailure (conn (connectPeer w)) = Some (clock w)"
  using assms by (simp add: conn_timeoutPeer conn_connectPeer)

theorem timeoutPeer_starts_failure_window_witness:
  "lastFailure (conn sideA) = None
   \<and> lastFailure (conn (timeoutPeer sideA 2000 [])) = Some 1000
   \<and> lastFailure (conn (connectPeer sideA)) = Some 1000"
proof -
  have a: "lastFailure (conn sideA) = None" and c: "clock sideA = 1000"
    by (simp_all add: sideA_def initWorld_def newConnection_def)
  show ?thesis
    using timeoutPeer_starts_failure_window [OF a, of 2000 "[]"] a c by simp
qed

subsection \<open>C5: failure is terminal when forced or after 20000 ms, a retry otherwise\<close>

text \<open>
  Claim C5.  \<open>handlePeerFail\<close> first stops the armed deadline and starts the failure window
  if it was not running; \<open>lf\<close> is its start.  If \<open>forced\<close> is true or more than 20000 ms
  have passed since \<open>lf\<close>, one \<open>failedConnection\<close> event is emitted, no deadline is left
  pending and nothing is sent or created.  Otherwise the result is that of \<open>connectPeer\<close>
  on the same connection, nothing is emitted, and the one pending deadline is the new connect
  deadline.  Either way \<open>lastFailure\<close> is \<open>lf\<close> afterwards, and \<open>lf\<close> is the previous
  \<open>lastFailure\<close> whenever that was set, so the window carries over from retry to retry.
\<close>

theorem handlePeerFail_policy:
  assumes "deadline_inv w"
  shows
    "(let lf = num_or (lastFailure (conn w)) (clock w);
          w' = handlePeerFail w forced
      in (if forced \<or> clock w - lf > 20000
          then emitted w' = emitted w @ [FailedConnection]
               \<and> deadlines w' = [] \<and> timeout (conn w') = None
               \<and> outbox w' = outbox w \<and> peers w' = peers w
          else w' = connectPeer ((stopTimeout w)\<lparr>conn := (conn (stopTimeout w))\<lparr>lastFailure := Some lf\<rparr>\<rparr>)
               \<and> emitted w' = emitted w
               \<and> deadlines w' = [clock w + max 0 (max (0 - clock w) 6000)])
         \<and> lastFailure (conn w') = Some lf)
     \<and> (\<forall>t. lastFailure (conn w) = Some t \<and> t \<noteq> 0 \<longrightarrow>
            num_or (lastFailure (conn w)) (clock w) = t)"
proof -
  let ?lf = "num_or (lastFailure (conn w)) (clock w)"
  let ?v = "(stopTimeout w)\<lparr>conn := (conn (stopTimeout w))\<lparr>lastFailure := Some ?lf\<rparr>\<rparr>"
  have inv: "deadline_inv ?v"
    by (rule deadline_inv_subset [OF deadline_inv_stopTimeout [OF assms]]) simp_all
  have dl: "deadlines ?v = []"
    using deadlines_stopTimeout [OF assms] by simp
  show ?thesis
  proof (cases "forced \<or> clock w - ?lf > MAX_FAIL_TIME")
    case True
    then have "handlePeerFail w forced = emit ?v FailedConnection"
      by (rule handlePeerFail_terminal)
    with True dl show ?thesis
      by (auto simp: Let_def emit_def deadlines_def conn_stopTimeout MAX_FAIL_TIME_def)
  next
    case False
    then have "handlePeerFail w forced = connectPeer ?v"
      by (rule handlePeerFail_retry)
    with False deadlines_connectPeer [OF inv] show ?thesis
      by (auto simp: Let_def conn_connectPeer conn_stopTimeout MAX_FAIL_TIME_def
          MAX_CONNECT_TIME_def dest: num_or_zero)
  qed
qed

lemmas run_defs = run_def advance_def onClose_def handlePeerFail_def stopTimeout_def emit_def
  MAX_FAIL_TIME_def

text \<open>The scenario of the specification: closes at 0, 3000 and 6000 ms of failure time are
  retried, each on a fresh initiator instance; a fourth close at 21000 ms is terminal.\<close>

lemma scenario_three_closes_retry:
  "emitted (run sideB closes3) = []
   \<and> length (peers (run sideB closes3)) = 4
   \<and> pc (conn (run sideB closes3)) = Some 3
   \<and> lastFailure (conn (run sideB closes3)) = Some 1000
   \<and> clock (run sideB closes3) = 7000"
  by (simp add: closes3_def eval_defs run_defs)

lemma scenario_fourth_close_terminal:
  "emitted (run sideB (closes3 @ [Advance 15000, Close 3])) = [FailedConnection]
   \<and> length (peers (run sideB (closes3 @ [Advance 15000, Close 3]))) = 4"
  by (simp add: closes3_def eval_defs run_defs)

theorem handlePeerFail_policy_witness:
  "deadline_inv (advance (connectPeer sideB) 3000)
   \<and> emitted (handlePeerFail (advance (connectPeer sideB) 3000) False) = []
   \<and> lastFailure (conn (handlePeerFail (advance (connectPeer sideB) 3000) False)) = Some 1000
   \<and> deadlines (handlePeerFail (advance (connectPeer sideB) 3000) False) = [10000]
   \<and> deadline_inv (advance (connectPeer sideB) 21000)
   \<and> emitted (handlePeerFail (advance (connectPeer sideB) 21000) False) = [FailedConnection]
   \<and> deadlines (handlePeerFail (advance (connectPeer sideB) 21000) False) = []
   \<and> emitted (handlePeerFail (advance (connectPeer sideB) 3000) True) = [FailedConnection]"
proof -
  have i1: "deadline_inv (advance (connectPeer sideB) 3000)"
    and i2: "deadline_inv (advance (connectPeer sideB) 21000)"
    by (simp_all add: deadline_inv_advance deadline_inv_connectPeer sideB_def deadline_inv_init)
  show ?thesis
    using handlePeerFail_policy [OF i1, of False] handlePeerFail_policy [OF i2, of False]
      handlePeerFail_policy [OF i1, of True] i1 i2
    by (auto simp: Let_def sideB_connected)
qed

subsection \<open>C6: connectPeer on the active and on the waiting side\<close>

text \<open>
  Claim C6.  In every world \<open>connectPeer\<close> first retires the transport instance that the
  connection holds, if any: the instance is marked garbage and destroyed.  On the active side
  a new initiator instance is then appended to the heap and stored in \<open>connection.pc\<close>, and
  only the probe is sent.  On the other side no instance is created, \<open>connection.pc\<close> is
  left as it was, and after the probe one \<open>signal\<close> message goes to the remote peer, with
  \<open>youStart\<close> set and the shared state and its time attached.
\<close>

theorem connectPeer_roles:
  "(let retired = (case pc (conn w) of
                     None \<Rightarrow> peers w
                   | Some old \<Rightarrow>
                       (peers w)[old := (peers w ! old)\<lparr>garbage := True, destroyed := True\<rparr>]);
        probe = (peerId (conn w), Ping (connId (conn w)) (pingCount w))
    in if active w
       then peers (connectPeer w) =
              retired @ [\<lparr>initiator = True, p_peerId = peerId (conn w),
                          p_connId = connId (conn w), connectStart = clock w,
                          didSignal = False, garbage = False, destroyed = False,
                          pfrom = None, remoteStreamIds = None, signalled = []\<rparr>]
            \<and> pc (conn (connectPeer w)) = Some (length (peers w))
            \<and> outbox (connectPeer w) = outbox w @ [probe]
       else peers (connectPeer w) = retired
            \<and> pc (conn (connectPeer w)) = pc (conn w)
            \<and> outbox (connectPeer w) =
                outbox w @ [probe,
                  (peerId (conn w),
                   Signal (connId (conn w))
                     (Some (sharedState (swarm w), sharedStateTime (swarm w)))
                     \<lparr>youStart = True, first = False, dfrom = None, meta = None,
                      dtype = ''you-start''\<rparr>)])"
  by (simp add: Let_def peers_connectPeer outbox_connectPeer conn_connectPeer youStartData_def)


theorem connectPeer_roles_witness:
  "active (connectPeer sideB)
   \<and> peers (connectPeer (connectPeer sideB)) =
       [\<lparr>initiator = True, p_peerId = ''a'', p_connId = ''c0'', connectStart = 1000,
          didSignal = False, garbage = True, destroyed = True, pfrom = None,
          remoteStreamIds = None, signalled = []\<rparr>,
        \<lparr>initiator = True, p_peerId = ''a'', p_connId = ''c0'', connectStart = 1000,
          didSignal = False, garbage = False, destroyed = False, pfrom = None,
          remoteStreamIds = None, signalled = []\<rparr>]
   \<and> pc (conn (connectPeer (connectPeer sideB))) = Some 1
   \<and> \<not> active sideA
   \<and> peers (connectPeer sideA) = []
   \<and> pc (conn (connectPeer sideA)) = None
   \<and> outbox (connectPeer sideA) =
       [(''b'', Ping ''c1'' 0),
        (''b'', Signal ''c1'' (Some (''s'', 7))
           \<lparr>youStart = True, first = False, dfrom = None, meta = None,
            dtype = ''you-start''\<rparr>)]"
proof -
  have b: "active (connectPeer sideB)"
    by (simp add: sideB_connected active_def iAmActive_def swB_def)
  have a: "\<not> active sideA"
    by (simp add: sideA_def initWorld_def newConnection_def active_def iAmActive_def swA_def)
  show ?thesis
    using connectPeer_roles [of "connectPeer sideB"] connectPeer_roles [of sideA] a b
    by (simp add: Let_def sideB_connected)
      (simp add: sideA_def initWorld_def newConnection_def swA_def)
qed

subsection \<open>C7: a youStart signal creates an initiator only where there is no instance\<close>

text \<open>
  Claim C7.  For a signal whose payload has \<open>youStart\<close> set: if the connection holds no
  transport instance, \<open>handleSignal\<close> appends one initiator instance to the heap and stores
  it in \<open>connection.pc\<close>, and changes nothing else; if the connection holds an instance,
  destroyed or not, the world is left exactly as it was.
\<close>

theorem handleSignal_youStart:
  assumes "youStart data"
  shows "handleSignal w data =
           (if pc (conn w) = None
            then w\<lparr>peers := peers w @ [\<lparr>initiator = True, p_peerId = peerId (conn w),
                          p_connId = connId (conn w), connectStart = clock w,
                          didSignal = False, garbage = False, destroyed = False,
                          pfrom = None, remoteStreamIds = None, signalled = []\<rparr>],
                   conn := (conn w)\<lparr>pc := Some (length (peers w))\<rparr>\<rparr>
            else w)"
  using assms by (simp add: handleSignal_def createPeer_fresh)

theorem handleSignal_youStart_witness:
  "youStart youStartData
   \<and> pc (conn sideA) = None
   \<and> pc (conn (handleSignal sideA youStartData)) = Some 0
   \<and> map initiator (peers (handleSignal sideA youStartData)) = [True]
   \<and> pc (conn sideA_receiving) = Some 0
   \<and> handleSignal sideA_receiving youStartData = sideA_receiving"
proof -
  have y: "youStart youStartData" by (simp add: youStartData_def)
  show ?thesis
    using handleSignal_youStart [OF y, of sideA] handleSignal_youStart [OF y, of sideA_receiving] y
    by (simp add: sideA_receiving_eval) (simp add: sideA_def initWorld_def newConnection_def)
qed

subsection \<open>C8: a signal of another remote instance\<close>

text \<open>
  Claim C8, as stated, fails.  The first conjunct: the waiting side holds a live receiver
  instance recorded as coming from \<open>"Y"\<close> and receives a first signal from \<open>"X"\<close>; the
  instance is retired, a new receiver instance is created for \<open>"X"\<close> and the payload is
  forwarded into it.  The second: the connection holds a destroyed instance (the waiting side
  called \<open>connectPeer\<close> again) and receives a later signal from \<open>"X"\<close>;
  \<open>handleSignal\<close> reconnects, which sends a probe and a \<open>youStart\<close> signal.
\<close>

theorem handleSignal_other_instance_counterexample:
  "(\<not> youStart firstFromX
    \<and> pc (conn sideA_receiving) = Some 0
    \<and> pfrom (peers sideA_receiving ! 0) = Some ''Y''
    \<and> dfrom firstFromX = Some ''X''
    \<and> handleSignal sideA_receiving firstFromX \<noteq> sideA_receiving
    \<and> pc (conn (handleSignal sideA_receiving firstFromX)) = Some 1
    \<and> map signalled (peers (handleSignal sideA_receiving firstFromX)) = [[firstFromY], [firstFromX]])
   \<and> (\<not> youStart nextFromX
    \<and> pc (conn (connectPeer sideA_receiving)) = Some 0
    \<and> pfrom (peers (connectPeer sideA_receiving) ! 0) = Some ''Y''
    \<and> dfrom nextFromX = Some ''X''
    \<and> handleSignal (connectPeer sideA_receiving) nextFromX \<noteq> connectPeer sideA_receiving
    \<and> length (outbox (handleSignal (connectPeer sideA_receiving) nextFromX))
        = length (outbox (connectPeer sideA_receiving)) + 2)"
proof -
  let ?hs = "handleSignal sideA_receiving firstFromX"
  let ?cp = "connectPeer sideA_receiving"
  let ?hc = "handleSignal ?cp nextFromX"
  have a0: "pc (conn sideA_receiving) = Some 0"
    and a1: "pfrom (peers sideA_receiving ! 0) = Some ''Y''"
    by (simp_all add: sideA_receiving_eval)
  have a2: "pc (conn ?hs) = Some 1"
    and a3: "map signalled (peers ?hs) = [[firstFromY], [firstFromX]]"
    by (simp_all add: sideA_receiving_eval handleSignal_def addPeerMetaData_def firstFromX_def
        eval_defs)
  from a0 a2 have a4: "?hs \<noteq> sideA_receiving" by auto
  have b0: "pc (conn ?cp) = Some 0"
    and b1: "pfrom (peers ?cp ! 0) = Some ''Y''"
    and b2: "destroyed (peers ?cp ! 0)"
    and b3: "\<not> active ?cp"
    by (simp_all add: sideA_receiving_eval eval_defs)
  from b0 b2 b3 have "?hc = connectPeer ?cp"
    by (simp add: handleSignal_def Let_def nextFromX_def)
  moreover have "length (outbox (connectPeer ?cp)) = length (outbox ?cp) + 2"
    using b3 by (simp add: outbox_connectPeer)
  ultimately have b4: "length (outbox ?hc) = length (outbox ?cp) + 2" by simp
  then have b5: "?hc \<noteq> ?cp" by auto
  show ?thesis
    using a0 a1 a2 a3 a4 b0 b1 b4 b5 by (simp add: firstFromX_def nextFromX_def)
qed

text \<open>
  Claim C8, amended.  Take a signal without \<open>youStart\<close> that is not a first signal arriving
  on the waiting side, and a connection that holds an instance which is not destroyed and
  whose recorded \<open>from\<close> is set and differs from the payload's \<open>from\<close>.  Then
  \<open>handleSignal\<close> returns the world unchanged: nothing is forwarded into the transport, no
  metadata is applied, no deadline is touched, nothing is sent.
\<close>

theorem handleSignal_wrong_instance_discarded:
  assumes "\<not> youStart data" and "\<not> (first data \<and> \<not> active w)"
    and "pc (conn w) = Some r" and "\<not> destroyed (peers w ! r)"
    and "truthy_str (pfrom (peers w ! r))" and "pfrom (peers w ! r) \<noteq> dfrom data"
  shows "handleSignal w data = w"
  using assms by (auto simp: handleSignal_def Let_def)

theorem handleSignal_wrong_instance_discarded_witness:
  "\<not> youStart nextFromX \<and> \<not> first nextFromX
   \<and> pc (conn sideA_receiving) = Some 0
   \<and> \<not> destroyed (peers sideA_receiving ! 0)
   \<and> pfrom (peers sideA_receiving ! 0) = Some ''Y''
   \<and> dfrom nextFromX = Some ''X''
   \<and> handleSignal sideA_receiving nextFromX = sideA_receiving"
proof -
  have h: "\<not> youStart nextFromX" "\<not> (first nextFromX \<and> \<not> active sideA_receiving)"
    "pc (conn sideA_receiving) = Some 0" "\<not> destroyed (peers sideA_receiving ! 0)"
    "truthy_str (pfrom (peers sideA_receiving ! 0))"
    "pfrom (peers sideA_receiving ! 0) \<noteq> dfrom nextFromX"
    by (simp_all add: nextFromX_def sideA_receiving_eval)
  show ?thesis
    using handleSignal_wrong_instance_discarded [OF h] h
    by (simp add: nextFromX_def sideA_receiving_eval)
qed

subsection \<open>C2: which callbacks of a garbage instance are ignored\<close>




subsection \<open>C4: a pong that arrives in the millisecond of its ping\<close>

text \<open>
  Claim C4 says that a pong arriving before the probe's timeout never triggers the forced
  failure.  Side B calls \<open>connectPeer\<close> at time 1000, which issues probe 0 with its timer
  due at 6000, and the pong for probe 0 is delivered while the clock still reads 1000.  The
  promise is settled with the measured round-trip time \<open>0\<close>; the continuation of
  \<open>deathPing\<close> tests \<open>if (ms)\<close>, takes \<open>0\<close> for a failed ping and calls
  \<open>handlePeerFail(connection, true)\<close>: the terminal event is emitted although the probe did
  not time out.  (With any other round-trip time nothing happens, \<open>pong_in_time\<close>.)
\<close>

theorem pong_in_same_millisecond_forces_failure:
  "clock (connectPeer sideB) = 1000
   \<and> pings (connectPeer sideB) = [0]
   \<and> promises (connectPeer sideB) = [(0, \<lparr>start = 1000, settled = Pending\<rparr>)]
   \<and> map_of (timers (connectPeer sideB)) 1 = Some (6000, PingTimeout 0)
   \<and> emitted (connectPeer sideB) = []
   \<and> promises (pongArrives (connectPeer sideB) 0)
       = [(0, \<lparr>start = 1000, settled = Resolved (Some 0)\<rparr>)]
   \<and> pongArrives (connectPeer sideB) 0
       = handlePeerFail ((handlePong (connectPeer sideB) 0)\<lparr>microtasks := []\<rparr>) True
   \<and> emitted (pongArrives (connectPeer sideB) 0) = [FailedConnection]"
  unfolding sideB_connected
  by (simp add: pongArrives_def handlePong_def resolve_def runMicrotasks_def deathPingThen_def
      handlePeerFail_def stopTimeout_def emit_def Let_def)

end
